theory Spec2Isabelle
  imports Main "HOL-Library.Word"
begin

section \<open>Time and durations\<close>

text \<open>
  A \<open>time.Time\<close> is the number of nanoseconds since Go's zero time, so that
  \<open>IsZero\<close> is equality with 0; a \<open>time.Duration\<close> is a signed 64-bit count of
  nanoseconds. \<open>Time.Sub\<close> saturates at the least and greatest duration, as the Go
  library does; \<open>time.Until t\<close> is \<open>t.Sub(time.Now())\<close>. The readings of the clock
  are parameters of the operations: one reading \<open>now\<close> where the result does not
  depend on the time that passes between two calls of \<open>time.Now()\<close>, and both
  readings where it does (\<open>ValidateToken\<close>).
\<close>

type_synonym time = int
type_synonym duration = int

definition Hour :: duration where
  "Hour = 3600 * 1000000000"

definition minDuration :: duration where
  "minDuration = - (2 ^ 63)"

definition maxDuration :: duration where
  "maxDuration = 2 ^ 63 - 1"

definition Sub :: "time \<Rightarrow> time \<Rightarrow> duration" where
  "Sub t u = (let d = t - u in
     if d < minDuration then minDuration
     else if maxDuration < d then maxDuration
     else d)"

definition Until :: "time \<Rightarrow> time \<Rightarrow> duration" where
  "Until now t = Sub t now"

definition After :: "time \<Rightarrow> time \<Rightarrow> bool" where
  "After t u = (u < t)"

definition Before :: "time \<Rightarrow> time \<Rightarrow> bool" where
  "Before t u = (t < u)"

definition Add :: "time \<Rightarrow> duration \<Rightarrow> time" where
  "Add t d = t + d"

definition IsZero :: "time \<Rightarrow> bool" where
  "IsZero t = (t = 0)"

text \<open>
  \<open>t.AddDate(0, 0, n)\<close> for a clock whose location has no offset changes (UTC):
  \<open>n\<close> calendar days are \<open>n\<close> times 24 hours.
\<close>

definition AddDate_days :: "time \<Rightarrow> int \<Rightarrow> time" where
  "AddDate_days t n = t + n * (24 * Hour)"

section \<open>Errors\<close>

text \<open>
  The services build their errors with \<open>fmt.Errorf\<close>: a message, or a prefix
  wrapping another error with \<open>%w\<close>. \<open>ErrRecordNotFound\<close> is the store's answer to
  \<open>First\<close> on no row; \<open>External\<close> is an error of a collaborator (the token broker,
  the remote cache, the JSON encoder). \<open>Error\<close> is the message of an error.
\<close>

datatype error =
    ErrRecordNotFound
  | External string
  | Errorf string
  | Wrap string error

fun Error :: "error \<Rightarrow> string" where
  "Error ErrRecordNotFound = ''record not found''"
| "Error (External m) = m"
| "Error (Errorf m) = m"
| "Error (Wrap p e) = p @ '': '' @ Error e"

section \<open>Cache layer (internal/services/cache.go)\<close>

text \<open>
  A cached value is an \<open>interface{}\<close>, a value with its dynamic type. \<open>GNil\<close>,
  \<open>GBool\<close>, \<open>GFloat64\<close> (the 64 bits of the float), \<open>GString\<close>, \<open>GSlice\<close> (a
  \<open>[]interface{}\<close>) and \<open>GMap\<close> (a \<open>map[string]interface{}\<close>) are the dynamic types
  that \<open>json.Unmarshal\<close> into an \<open>interface{}\<close> produces; \<open>GInt\<close> and \<open>GInt64\<close> are
  Go's \<open>int\<close> and \<open>int64\<close>; \<open>GOther\<close> stands for a value of any further dynamic
  type (a struct, a pointer to a struct, a typed slice, a channel).
\<close>

datatype gvalue =
    GNil
  | GBool bool
  | GInt "64 word"
  | GInt64 "64 word"
  | GFloat64 "64 word"
  | GString string
  | GSlice "gvalue list"
  | GMap "(string \<times> gvalue) list"
  | GOther nat

fun json_generic :: "gvalue \<Rightarrow> bool" where
  "json_generic GNil = True"
| "json_generic (GBool b) = True"
| "json_generic (GFloat64 f) = True"
| "json_generic (GString s) = True"
| "json_generic (GSlice xs) = True"
| "json_generic (GMap kvs) = True"
| "json_generic (GInt n) = False"
| "json_generic (GInt64 n) = False"
| "json_generic (GOther k) = False"

text \<open>
  The remote tier: a Redis client whose commands all fail with the error \<open>outage\<close>
  while it is set, and otherwise work on the stored strings, each with the expiration
  it was stored with. The local tier keeps the value itself with the expiration passed
  to it. Reads happen within that expiration: the expiry of entries is the business of
  the two stores and is not modelled. \<open>memory_Set\<close> and \<open>memory_Get\<close> are the calls
  on the local store; \<open>Get_local\<close> and \<open>Increment_local\<close> are the fallback blocks
  that end \<open>Get\<close> and \<open>Increment\<close>.
\<close>

record redis =
  outage :: "string option"
  data :: "(string \<times> string \<times> duration) list"

record CacheService =
  redisClient :: "redis option"
  memoryCache :: "string \<rightharpoonup> gvalue \<times> duration"

definition redis_Nil :: error where
  "redis_Nil = External ''redis: nil''"

definition redis_Set :: "redis \<Rightarrow> string \<Rightarrow> string \<Rightarrow> duration \<Rightarrow> error + redis" where
  "redis_Set r key val expiration =
     (case outage r of
        Some m \<Rightarrow> Inl (External m)
      | None \<Rightarrow> Inr (r\<lparr>data := (key, val, expiration) # filter (\<lambda>kv. fst kv \<noteq> key) (data r)\<rparr>))"

definition redis_Get :: "redis \<Rightarrow> string \<Rightarrow> error + string" where
  "redis_Get r key =
     (case outage r of
        Some m \<Rightarrow> Inl (External m)
      | None \<Rightarrow> (case map_of (data r) key of
                   None \<Rightarrow> Inl redis_Nil
                 | Some (val, _) \<Rightarrow> Inr val))"

definition redis_Keys :: "(string \<Rightarrow> string \<Rightarrow> bool) \<Rightarrow> redis \<Rightarrow> string \<Rightarrow> error + string list" where
  "redis_Keys glob r pattern =
     (case outage r of
        Some m \<Rightarrow> Inl (External m)
      | None \<Rightarrow> Inr (filter (glob pattern) (map fst (data r))))"

definition redis_Del :: "redis \<Rightarrow> string list \<Rightarrow> error + redis" where
  "redis_Del r keys =
     (case outage r of
        Some m \<Rightarrow> Inl (External m)
      | None \<Rightarrow> Inr (r\<lparr>data := filter (\<lambda>kv. fst kv \<notin> set keys) (data r)\<rparr>))"

text \<open>
  \<open>INCRBY\<close>: the stored string is read as a signed 64-bit integer (\<open>atoi\<close>, the
  remote's own decimal reader), a missing key counts as 0, and a string that is no
  integer or a sum out of range is an error; the entry keeps its expiration.
\<close>

definition redis_IncrBy ::
  "(string \<Rightarrow> 64 word option) \<Rightarrow> (64 word \<Rightarrow> string) \<Rightarrow> redis \<Rightarrow> string \<Rightarrow> 64 word
     \<Rightarrow> error + 64 word \<times> redis" where
  "redis_IncrBy atoi itoa r key delta =
     (case outage r of
        Some m \<Rightarrow> Inl (External m)
      | None \<Rightarrow>
          (case (case map_of (data r) key of
                   None \<Rightarrow> Some (0, 0)
                 | Some (val, ttl) \<Rightarrow> map_option (\<lambda>n. (n, ttl)) (atoi val)) of
             None \<Rightarrow> Inl (External ''ERR value is not an integer or out of range'')
           | Some (n, ttl) \<Rightarrow>
               if sint n + sint delta < - (2 ^ 63) \<or> 2 ^ 63 - 1 < sint n + sint delta
               then Inl (External ''ERR increment or decrement would overflow'')
               else Inr (n + delta,
                         r\<lparr>data := (key, itoa (n + delta), ttl) # filter (\<lambda>kv. fst kv \<noteq> key) (data r)\<rparr>)))"

definition memory_Set :: "CacheService \<Rightarrow> string \<Rightarrow> gvalue \<Rightarrow> duration \<Rightarrow> CacheService" where
  "memory_Set cs key val expiration =
     cs\<lparr>memoryCache := (memoryCache cs)(key \<mapsto> (val, expiration))\<rparr>"

definition DefaultExpiration :: duration where
  "DefaultExpiration = 0"

text \<open>
  \<open>Set\<close>: the remote tier first, when there is a client and \<open>json.Marshal\<close> (the
  parameter \<open>json_Marshal\<close>) and the remote \<open>SET\<close> both succeed; otherwise the local
  tier. The result is the returned error (always \<open>nil\<close>) and the cache afterwards.
\<close>

definition Set ::
  "(gvalue \<Rightarrow> error + string) \<Rightarrow> CacheService \<Rightarrow> string \<Rightarrow> gvalue \<Rightarrow> duration
     \<Rightarrow> error option \<times> CacheService" where
  "Set json_Marshal cs key val expiration =
     (case redisClient cs of
        None \<Rightarrow> (None, memory_Set cs key val expiration)
      | Some r \<Rightarrow>
          (case json_Marshal val of
             Inl err \<Rightarrow> (None, memory_Set cs key val expiration)
           | Inr jsonData \<Rightarrow>
               (case redis_Set r key jsonData expiration of
                  Inl err \<Rightarrow> (None, memory_Set cs key val expiration)
                | Inr r' \<Rightarrow> (None, cs\<lparr>redisClient := Some r'\<rparr>))))"

text \<open>
  \<open>Get\<close>: the remote value decoded by \<open>json.Unmarshal\<close> into an \<open>interface{}\<close>
  (the parameter \<open>json_Unmarshal\<close>), or the raw string where it does not decode; on a
  remote miss or failure the local value, or \<open>nil\<close>.
\<close>

definition memory_Get :: "CacheService \<Rightarrow> string \<Rightarrow> gvalue option" where
  "memory_Get cs key = map_option fst (memoryCache cs key)"

definition Get_local :: "CacheService \<Rightarrow> string \<Rightarrow> gvalue" where
  "Get_local cs key = (case memory_Get cs key of Some v \<Rightarrow> v | None \<Rightarrow> GNil)"

definition Get :: "(string \<Rightarrow> gvalue option) \<Rightarrow> CacheService \<Rightarrow> string \<Rightarrow> gvalue" where
  "Get json_Unmarshal cs key =
     (case redisClient cs of
        None \<Rightarrow> Get_local cs key
      | Some r \<Rightarrow>
          (case redis_Get r key of
             Inl err \<Rightarrow> Get_local cs key
           | Inr val \<Rightarrow>
               (case json_Unmarshal val of
                  Some result \<Rightarrow> result
                | None \<Rightarrow> GString val)))"

text \<open>
  \<open>DeletePattern\<close>: remote only. \<open>glob\<close> is the remote's matching of a key against
  a pattern.
\<close>

definition DeletePattern ::
  "(string \<Rightarrow> string \<Rightarrow> bool) \<Rightarrow> CacheService \<Rightarrow> string \<Rightarrow> error option \<times> CacheService" where
  "DeletePattern glob cs pattern =
     (case redisClient cs of
        None \<Rightarrow> (Some (Errorf ''Redis not available for pattern deletion''), cs)
      | Some r \<Rightarrow>
          (case redis_Keys glob r pattern of
             Inl err \<Rightarrow> (Some err, cs)
           | Inr keys \<Rightarrow>
               if 0 < length keys
               then (case redis_Del r keys of
                       Inl err \<Rightarrow> (Some err, cs)
                     | Inr r' \<Rightarrow> (None, cs\<lparr>redisClient := Some r'\<rparr>))
               else (None, cs)))"

text \<open>
  \<open>Increment\<close>: the remote \<open>INCRBY\<close> when it succeeds; otherwise the local entry
  plus \<open>delta\<close> when it holds an \<open>int64\<close> (the sum wraps, as Go's does), and
  \<open>delta\<close> itself in every other case.
\<close>

definition Increment_local :: "CacheService \<Rightarrow> string \<Rightarrow> 64 word \<Rightarrow> (64 word \<times> error option) \<times> CacheService" where
  "Increment_local cs key delta =
     (case memory_Get cs key of
        Some (GInt64 intVal) \<Rightarrow>
          (let newVal = intVal + delta
           in ((newVal, None), memory_Set cs key (GInt64 newVal) DefaultExpiration))
      | _ \<Rightarrow> ((delta, None), memory_Set cs key (GInt64 delta) DefaultExpiration))"

definition Increment ::
  "(string \<Rightarrow> 64 word option) \<Rightarrow> (64 word \<Rightarrow> string) \<Rightarrow> CacheService \<Rightarrow> string \<Rightarrow> 64 word
     \<Rightarrow> (64 word \<times> error option) \<times> CacheService" where
  "Increment atoi itoa cs key delta =
     (case redisClient cs of
        None \<Rightarrow> Increment_local cs key delta
      | Some r \<Rightarrow>
          (case redis_IncrBy atoi itoa r key delta of
             Inl err \<Rightarrow> Increment_local cs key delta
           | Inr (val, r') \<Rightarrow> ((val, None), cs\<lparr>redisClient := Some r'\<rparr>)))"

section \<open>Scheduler statistics (internal/services/scheduler.go)\<close>

text \<open>
  A \<open>cron.Entry\<close> with the two fields \<open>GetStats\<close> reads; a job that has not run
  yet has the zero time as \<open>Prev\<close>. \<open>cron_entries\<close> is what \<open>cron.Entries()\<close>
  returns, in its order.
\<close>

record Entry =
  Next :: time
  Prev :: time

record SchedulerService =
  cron_entries :: "Entry list"
  isRunning :: bool

record SchedulerStats =
  IsRunning :: bool
  JobCount :: nat
  NextJobTime :: "time option"
  LastJobTime :: "time option"

definition GetStats :: "SchedulerService \<Rightarrow> SchedulerStats" where
  "GetStats ss =
     (let stats = \<lparr>IsRunning = isRunning ss, JobCount = length (cron_entries ss),
                   NextJobTime = None, LastJobTime = None\<rparr>;
          entries = cron_entries ss
      in case entries of
           [] \<Rightarrow> stats
         | first # rest \<Rightarrow>
             (let nextTime = fold (\<lambda>entry nextTime.
                                if Before (Next entry) nextTime then Next entry else nextTime)
                              rest (Next first);
                  stats = stats\<lparr>NextJobTime := Some nextTime\<rparr>
              in if \<not> IsZero (Prev first)
                 then (let lastTime = fold (\<lambda>entry lastTime.
                                        if After (Prev entry) lastTime then Prev entry else lastTime)
                                      rest (Prev first)
                       in stats\<lparr>LastJobTime := Some lastTime\<rparr>)
                 else stats))"

section \<open>The relational store\<close>

text \<open>
  The rows of \<open>models.Company\<close> and \<open>models.TokenRefresh\<close> with the columns the token
  services use. A primary key is a number (a 128-bit uuid); \<open>uuid_String\<close> is its
  canonical text, 32 hexadecimal digits in five groups. \<open>DeletedAt\<close> is the
  soft-delete marker of a company. The \<open>Company\<close> association of a \<open>TokenRefresh\<close> is no
  column: a preloaded record is the pair of the row and the company loaded for it.
  \<open>RefreshCount\<close> is a Go \<open>int\<close> (64 bits): \<open>RefreshCount++\<close> wraps. The store keeps
  the times it is given exactly.
\<close>

type_synonym uuid = nat

definition hex_digit :: "nat \<Rightarrow> char" where
  "hex_digit d = ''0123456789abcdef'' ! (d mod 16)"

fun hex :: "nat \<Rightarrow> nat \<Rightarrow> string" where
  "hex 0 n = []"
| "hex (Suc k) n = hex k (n div 16) @ [hex_digit n]"

definition uuid_String :: "uuid \<Rightarrow> string" where
  "uuid_String u =
     (let h = hex 32 u
      in take 8 h @ ''-'' @ take 4 (drop 8 h) @ ''-'' @ take 4 (drop 12 h) @ ''-'' @
         take 4 (drop 16 h) @ ''-'' @ drop 20 h)"

record Company =
  ID :: uuid
  CompanyID :: string
  CompanyName :: string
  AccessToken :: string
  Company_RefreshToken :: string
  TokenExpiry :: time
  IsActive :: bool
  UpdatedAt :: time
  DeletedAt :: "time option"

record TokenRefresh =
  TokenRefresh_ID :: uuid
  TokenRefresh_CompanyID :: uuid
  LastRefresh :: time
  NextRefresh :: time
  RefreshCount :: "64 word"
  Status :: string
  ErrorMessage :: string
  TokenRefresh_UpdatedAt :: time

record NangoTokenRefreshResponse =
  Response_AccessToken :: string
  Response_RefreshToken :: string
  ExpiresAt :: time

text \<open>
  The state the token services work on: the two tables, and the trace of the calls made
  to the external token broker (refresh token and company id of each call). The store
  itself does not fail: its errors are \<open>ErrRecordNotFound\<close> and, in the \<open>Save\<close> of
  a preloaded record, the refusal of a write by the unique index on \<open>company_id\<close>.
\<close>

record world =
  companies :: "Company list"
  token_refreshes :: "TokenRefresh list"
  broker_calls :: "(string \<times> string) list"

text \<open>
  \<open>First\<close>: the row with the least primary key among those that satisfy the
  condition. \<open>Save\<close>: the row with the primary key of the record is replaced by the
  record, and a record with a new key is inserted. Queries on companies skip the
  soft-deleted rows. \<open>Save\<close> stamps \<open>UpdatedAt\<close>.
\<close>

definition First :: "('a \<Rightarrow> uuid) \<Rightarrow> ('a \<Rightarrow> bool) \<Rightarrow> 'a list \<Rightarrow> error + 'a" where
  "First pk cond rows =
     (case filter cond rows of
        [] \<Rightarrow> Inl ErrRecordNotFound
      | x # xs \<Rightarrow> Inr (fold (\<lambda>y m. if pk y < pk m then y else m) xs x))"

definition Save :: "('a \<Rightarrow> uuid) \<Rightarrow> 'a \<Rightarrow> 'a list \<Rightarrow> 'a list" where
  "Save pk x rows =
     (if pk x \<in> pk ` set rows
      then map (\<lambda>row. if pk row = pk x then x else row) rows
      else rows @ [x])"

definition First_Company :: "(Company \<Rightarrow> bool) \<Rightarrow> world \<Rightarrow> error + Company" where
  "First_Company cond w = First ID (\<lambda>c. DeletedAt c = None \<and> cond c) (companies w)"

definition First_TokenRefresh :: "(TokenRefresh \<Rightarrow> bool) \<Rightarrow> world \<Rightarrow> error + TokenRefresh" where
  "First_TokenRefresh cond w = First TokenRefresh_ID cond (token_refreshes w)"

definition Save_Company :: "time \<Rightarrow> Company \<Rightarrow> world \<Rightarrow> world" where
  "Save_Company now c w = w\<lparr>companies := Save ID (c\<lparr>UpdatedAt := now\<rparr>) (companies w)\<rparr>"

definition Save_TokenRefresh :: "time \<Rightarrow> TokenRefresh \<Rightarrow> world \<Rightarrow> world" where
  "Save_TokenRefresh now t w =
     w\<lparr>token_refreshes := Save TokenRefresh_ID (t\<lparr>TokenRefresh_UpdatedAt := now\<rparr>) (token_refreshes w)\<rparr>"

definition zero_Company :: Company where
  "zero_Company = \<lparr>ID = 0, CompanyID = [], CompanyName = [], AccessToken = [],
     Company_RefreshToken = [], TokenExpiry = 0, IsActive = False, UpdatedAt = 0,
     DeletedAt = None\<rparr>"

text \<open>
  \<open>Preload("Company")\<close>. The field \<open>Company\<close> of \<open>TokenRefresh\<close> carries the tag
  \<open>foreignKey:CompanyID;references:ID\<close>, and \<open>Company\<close> has a field \<open>CompanyID\<close> of
  its own (the external company id, a string). The mapper therefore reads the
  association as has-one: the company of a record is the live company whose
  \<open>company_id\<close> is the text of the record's own \<open>id\<close>, and the zero \<open>Company\<close> when
  there is none. The unique index on \<open>company_id\<close> leaves at most one such company.
\<close>

definition Preload_Company :: "world \<Rightarrow> TokenRefresh \<Rightarrow> Company" where
  "Preload_Company w t =
     (case First_Company (\<lambda>c. CompanyID c = uuid_String (TokenRefresh_ID t)) w of
        Inl err \<Rightarrow> zero_Company
      | Inr c \<Rightarrow> c)"

text \<open>
  \<open>Save\<close> of a preloaded record, in one transaction: the record is written, and a
  company that is not the zero \<open>Company\<close> is written after it as the has-one
  association: its \<open>company_id\<close> is set to the text of the record's \<open>id\<close>, in the
  struct and in the row with the primary key of the company (a company with a new key is
  inserted). When another row holds that \<open>company_id\<close> the unique index refuses the
  write, the transaction is rolled back and \<open>Save\<close> returns the error. The result is
  the error, the pair as \<open>Save\<close> leaves it, and the store.
\<close>

definition Save_preloaded ::
  "time \<Rightarrow> TokenRefresh \<times> Company \<Rightarrow> world \<Rightarrow> error option \<times> (TokenRefresh \<times> Company) \<times> world" where
  "Save_preloaded now p w =
     (let tokenRefresh = (fst p)\<lparr>TokenRefresh_UpdatedAt := now\<rparr>;
          key = uuid_String (TokenRefresh_ID tokenRefresh)
      in if snd p = zero_Company
         then (None, (tokenRefresh, snd p), Save_TokenRefresh now tokenRefresh w)
         else
           (let company = (snd p)\<lparr>CompanyID := key\<rparr>
            in if \<exists>row \<in> set (companies w). ID row \<noteq> ID company \<and> CompanyID row = key
               then (Some (External ''duplicate key value violates unique constraint''),
                     (tokenRefresh, company), w)
               else (None, (tokenRefresh, company),
                     (Save_TokenRefresh now tokenRefresh w)
                       \<lparr>companies :=
                          (if ID company \<in> ID ` set (companies w)
                           then map (\<lambda>row. if ID row = ID company then row\<lparr>CompanyID := key\<rparr> else row)
                                  (companies w)
                           else companies w @ [company])\<rparr>)))"

section \<open>Token broker client (internal/services/nango.go)\<close>

text \<open>
  \<open>RefreshToken\<close>. The HTTP exchange with the broker is the parameter
  \<open>refreshTokenAPI\<close>, from the refresh token and the company id to an error or the new
  tokens; every call is appended to \<open>broker_calls\<close>.
\<close>

type_synonym broker = "string \<Rightarrow> string \<Rightarrow> error + NangoTokenRefreshResponse"

definition RefreshToken :: "broker \<Rightarrow> time \<Rightarrow> world \<Rightarrow> string \<Rightarrow> error option \<times> world" where
  "RefreshToken refreshTokenAPI now w companyID =
     (case First_Company (\<lambda>c. CompanyID c = companyID) w of
        Inl err \<Rightarrow> (Some (Wrap ''company not found'' err), w)
      | Inr company \<Rightarrow>
          (let w1 = w\<lparr>broker_calls := broker_calls w @ [(Company_RefreshToken company, companyID)]\<rparr>
           in case refreshTokenAPI (Company_RefreshToken company) companyID of
                Inl err \<Rightarrow> (Some (Wrap ''failed to refresh token'' err), w1)
              | Inr refreshResp \<Rightarrow>
                  (let company' = company\<lparr>AccessToken := Response_AccessToken refreshResp,
                                          Company_RefreshToken := Response_RefreshToken refreshResp,
                                          TokenExpiry := ExpiresAt refreshResp\<rparr>;
                       w2 = Save_Company now company' w1
                   in case First_TokenRefresh (\<lambda>t. TokenRefresh_CompanyID t = ID company') w2 of
                        Inl err \<Rightarrow> (None, w2)
                      | Inr tokenRefresh \<Rightarrow>
                          (None,
                           Save_TokenRefresh now
                             (tokenRefresh\<lparr>LastRefresh := now,
                                           NextRefresh := Add (ExpiresAt refreshResp) (- 24 * Hour),
                                           RefreshCount := RefreshCount tokenRefresh + 1,
                                           Status := ''active'',
                                           ErrorMessage := []\<rparr>)
                             w2))))"

section \<open>Token lifecycle manager (internal/services/token.go)\<close>

text \<open>
  \<open>refreshSingleToken\<close> works on the preloaded record it is given and returns it as it
  has changed it, with the error and the state.
\<close>

definition refreshSingleToken ::
  "broker \<Rightarrow> time \<Rightarrow> world \<Rightarrow> TokenRefresh \<times> Company
     \<Rightarrow> error option \<times> (TokenRefresh \<times> Company) \<times> world" where
  "refreshSingleToken refreshTokenAPI now w p =
     (let tokenRefresh = fst p
      in case RefreshToken refreshTokenAPI now w (CompanyID (snd p)) of
           (Some err, w1) \<Rightarrow> (Some (Wrap ''nango refresh failed'' err), p, w1)
         | (None, w1) \<Rightarrow>
             (let tokenRefresh1 = tokenRefresh\<lparr>LastRefresh := now,
                                               RefreshCount := RefreshCount tokenRefresh + 1,
                                               Status := ''active'',
                                               ErrorMessage := []\<rparr>
              in case First_Company (\<lambda>c. ID c = TokenRefresh_CompanyID tokenRefresh1) w1 of
                   Inl err \<Rightarrow>
                     (Some (Wrap ''failed to get updated company'' err), (tokenRefresh1, snd p), w1)
                 | Inr updatedCompany \<Rightarrow>
                     Save_preloaded now
                       (tokenRefresh1\<lparr>NextRefresh := Add (TokenExpiry updatedCompany) (- 24 * Hour)\<rparr>,
                        snd p)
                       w1))"

text \<open>
  \<open>RefreshExpiredTokens\<close>: the due records with their companies preloaded, then the
  loop over them. \<open>due\<close> is the condition of the query, \<open>refresh_one\<close> the body of
  the loop; the two counters of the loop only feed the log, and the loop drops the
  result of its own \<open>Save\<close>.
\<close>

definition refresh_one :: "broker \<Rightarrow> time \<Rightarrow> TokenRefresh \<times> Company \<Rightarrow> world \<Rightarrow> world" where
  "refresh_one refreshTokenAPI now p w =
     (case refreshSingleToken refreshTokenAPI now w p of
        (Some err, p1, w1) \<Rightarrow>
          snd (snd (Save_preloaded now
                 ((fst p1)\<lparr>Status := ''failed'', ErrorMessage := Error err\<rparr>, snd p1) w1))
      | (None, p1, w1) \<Rightarrow> w1)"

definition due :: "time \<Rightarrow> TokenRefresh \<Rightarrow> bool" where
  "due now t = (NextRefresh t \<le> now \<and> Status t = ''active'')"

definition RefreshExpiredTokens :: "broker \<Rightarrow> time \<Rightarrow> world \<Rightarrow> error option \<times> world" where
  "RefreshExpiredTokens refreshTokenAPI now w =
     (let tokenRefreshes = map (\<lambda>t. (t, Preload_Company w t)) (filter (due now) (token_refreshes w))
      in (None, fold (refresh_one refreshTokenAPI now) tokenRefreshes w))"

definition RefreshTokenForCompany :: "broker \<Rightarrow> time \<Rightarrow> world \<Rightarrow> string \<Rightarrow> error option \<times> world" where
  "RefreshTokenForCompany refreshTokenAPI now w companyID =
     (case First_Company (\<lambda>c. CompanyID c = companyID) w of
        Inl err \<Rightarrow> (Some (Wrap ''company not found'' err), w)
      | Inr company \<Rightarrow>
          if 24 * Hour < Until now (TokenExpiry company)
          then (Some (Errorf (''token for company '' @ companyID @ '' does not need refreshing yet'')), w)
          else RefreshToken refreshTokenAPI now w companyID)"

text \<open>
  \<open>ValidateToken\<close> reads the clock twice: \<open>now1\<close> is the reading compared with
  the expiry, \<open>now2\<close> the later reading inside \<open>time.Until\<close>.
\<close>

definition ValidateToken :: "time \<Rightarrow> time \<Rightarrow> world \<Rightarrow> string \<Rightarrow> bool \<times> error option" where
  "ValidateToken now1 now2 w companyID =
     (case First_Company (\<lambda>c. CompanyID c = companyID \<and> IsActive c = True) w of
        Inl err \<Rightarrow> (False, Some (Wrap ''company not found'' err))
      | Inr company \<Rightarrow>
          if After now1 (TokenExpiry company) then (False, None)
          else if Until now2 (TokenExpiry company) < Hour then (False, None)
          else (True, None))"

text \<open>
  \<open>CleanupExpiredTokens\<close> takes no argument beyond the receiver and returns an error
  only; the number of deleted rows goes to the log.
\<close>

definition CleanupExpiredTokens :: "time \<Rightarrow> world \<Rightarrow> error option \<times> world" where
  "CleanupExpiredTokens now w =
     (let cutoffDate = AddDate_days now (- 30)
      in (None,
          w\<lparr>token_refreshes :=
              filter (\<lambda>t. \<not> (TokenRefresh_UpdatedAt t < cutoffDate \<and> Status t \<in> set [''failed'', ''expired'']))
                (token_refreshes w)\<rparr>))"

section \<open>Concrete inputs\<close>

text \<open>
  A JSON codec on the values the examples use. A string without characters to escape is
  encoded between double quotes and decoded back. \<open>GOther 1\<close> stands for the
  \<open>*models.Company\<close> of tenant \<open>T1\<close>, encoded as a JSON object (abridged to its
  company id) and decoded, as any JSON object is, to a \<open>map[string]interface{}\<close>. Every
  other value stands here for one that \<open>json.Marshal\<close> rejects (a channel, a function).
\<close>

definition company_json :: string where
  "company_json = ''{'' @ [CHR 0x22] @ ''company_id'' @ [CHR 0x22] @ '':'' @
                  [CHR 0x22] @ ''T1'' @ [CHR 0x22] @ ''}''"

definition example_Marshal :: "gvalue \<Rightarrow> error + string" where
  "example_Marshal v =
     (case v of
        GString s \<Rightarrow> Inr (CHR 0x22 # s @ [CHR 0x22])
      | GOther k \<Rightarrow> if k = 1 then Inr company_json else Inl (External ''json: unsupported type'')
      | _ \<Rightarrow> Inl (External ''json: unsupported type''))"

definition example_Unmarshal :: "string \<Rightarrow> gvalue option" where
  "example_Unmarshal s =
     (if s = company_json then Some (GMap [(''company_id'', GString ''T1'')])
      else case s of
             [] \<Rightarrow> None
           | c # rest \<Rightarrow>
               if c = CHR 0x22 \<and> rest \<noteq> [] \<and> last rest = CHR 0x22
               then Some (GString (butlast rest)) else None)"

definition remote_cache :: CacheService where
  "remote_cache = \<lparr>redisClient = Some \<lparr>outage = None, data = []\<rparr>, memoryCache = Map.empty\<rparr>"

definition local_cache :: CacheService where
  "local_cache = \<lparr>redisClient = None, memoryCache = Map.empty\<rparr>"

definition outage_cache :: CacheService where
  "outage_cache = \<lparr>redisClient = Some \<lparr>outage = Some ''dial tcp: connection refused'', data = []\<rparr>,
     memoryCache = Map.empty\<rparr>"

text \<open>
  Two jobs of a running scheduler: the first was registered after the second last ran and
  has not run yet.
\<close>

definition example_scheduler :: SchedulerService where
  "example_scheduler = \<lparr>cron_entries = [\<lparr>Next = 1007, Prev = 0\<rparr>, \<lparr>Next = 1010, Prev = 1005\<rparr>],
     isRunning = True\<rparr>"

text \<open>
  Three tenants seen at hour 100: the credential of \<open>T1\<close> expires in two hours, that of
  \<open>T2\<close> within the hour, that of \<open>T3\<close> in a hundred hours. The broker refuses \<open>T2\<close>.
\<close>

definition tenant_T1 :: Company where
  "tenant_T1 = \<lparr>ID = 1, CompanyID = ''T1'', CompanyName = ''Tenant One'', AccessToken = ''a1'',
     Company_RefreshToken = ''r1'', TokenExpiry = 102 * Hour, IsActive = True, UpdatedAt = 0,
     DeletedAt = None\<rparr>"

definition tenant_T2 :: Company where
  "tenant_T2 = \<lparr>ID = 2, CompanyID = ''T2'', CompanyName = ''Tenant Two'', AccessToken = ''a2'',
     Company_RefreshToken = ''r2'', TokenExpiry = 100 * Hour + 1000, IsActive = True, UpdatedAt = 0,
     DeletedAt = None\<rparr>"

definition tenant_T3 :: Company where
  "tenant_T3 = \<lparr>ID = 3, CompanyID = ''T3'', CompanyName = ''Tenant Three'', AccessToken = ''a3'',
     Company_RefreshToken = ''r3'', TokenExpiry = 200 * Hour, IsActive = True, UpdatedAt = 0,
     DeletedAt = None\<rparr>"

definition record_T1 :: TokenRefresh where
  "record_T1 = \<lparr>TokenRefresh_ID = 11, TokenRefresh_CompanyID = 1, LastRefresh = 0,
     NextRefresh = 78 * Hour, RefreshCount = 0, Status = ''active'', ErrorMessage = [],
     TokenRefresh_UpdatedAt = 0\<rparr>"

definition record_T2 :: TokenRefresh where
  "record_T2 = \<lparr>TokenRefresh_ID = 12, TokenRefresh_CompanyID = 2, LastRefresh = 0,
     NextRefresh = 77 * Hour, RefreshCount = 4, Status = ''active'', ErrorMessage = [],
     TokenRefresh_UpdatedAt = 0\<rparr>"



definition example_world :: world where
  "example_world = \<lparr>companies = [tenant_T1, tenant_T2, tenant_T3],
     token_refreshes = [record_T1, record_T2], broker_calls = []\<rparr>"

definition example_broker :: broker where
  "example_broker refreshToken companyID =
     (if companyID = ''T2'' then Inl (External ''API request failed with status 500'')
      else Inr \<lparr>Response_AccessToken = ''new-access'', Response_RefreshToken = ''new-refresh'',
                ExpiresAt = 101 * Hour\<rparr>)"

definition record_old_failed :: TokenRefresh where
  "record_old_failed = \<lparr>TokenRefresh_ID = 13, TokenRefresh_CompanyID = 3, LastRefresh = 0,
     NextRefresh = 0, RefreshCount = 2, Status = ''failed'', ErrorMessage = ''nango refresh failed'',
     TokenRefresh_UpdatedAt = 0\<rparr>"

definition record_old_active :: TokenRefresh where
  "record_old_active = \<lparr>TokenRefresh_ID = 14, TokenRefresh_CompanyID = 1, LastRefresh = 0,
     NextRefresh = 0, RefreshCount = 2, Status = ''active'', ErrorMessage = [],
     TokenRefresh_UpdatedAt = 0\<rparr>"

section \<open>Properties of the cache layer\<close>

lemma Set_no_error: "fst (Set m cs key v e) = None"
  by (simp add: Set_def split: option.splits sum.splits)

lemma Set_local:
  "redisClient cs = None \<or> (\<exists>err. m v = Inl err) \<or>
   (\<exists>r msg. redisClient cs = Some r \<and> outage r = Some msg)
   \<Longrightarrow> snd (Set m cs key v e) = cs\<lparr>memoryCache := (memoryCache cs)(key \<mapsto> (v, e))\<rparr>"
  by (auto simp: Set_def memory_Set_def redis_Set_def split: option.splits sum.splits)

lemma Set_remote:
  "redisClient cs = Some r \<Longrightarrow> outage r = None \<Longrightarrow> m v = Inr d
   \<Longrightarrow> snd (Set m cs key v e)
       = cs\<lparr>redisClient := Some (r\<lparr>data := (key, d, e) # filter (\<lambda>kv. fst kv \<noteq> key) (data r)\<rparr>)\<rparr>"
  by (auto simp: Set_def memory_Set_def redis_Set_def split: option.splits sum.splits)

text \<open>
  On the local tier a \<open>Set\<close> is read back by \<open>Get\<close> as the very value stored: when
  there is no client, when the remote is in an outage, and when the value did not
  serialize and the remote holds no entry under the key.
\<close>

lemma Get_after_local_Set:
  assumes "redisClient cs = None \<or>
     (\<exists>r msg. redisClient cs = Some r \<and> outage r = Some msg) \<or>
     (\<exists>r err. redisClient cs = Some r \<and> json_Marshal val = Inl err \<and> map_of (data r) key = None)"
  shows "Get json_Unmarshal (snd (Set json_Marshal cs key val expiration)) key = val"
proof -
  from assms have "snd (Set json_Marshal cs key val expiration)
      = cs\<lparr>memoryCache := (memoryCache cs)(key \<mapsto> (val, expiration))\<rparr>"
    by (intro Set_local) auto
  with assms show ?thesis
    by (auto simp: Get_def Get_local_def memory_Get_def redis_Get_def redis_Nil_def
        split: option.splits)
qed

text \<open>
  When the value does not serialize while the remote holds an entry under the key, the
  \<open>Get\<close> that follows the \<open>Set\<close> is answered with that older entry.
\<close>

lemma Get_after_stale_remote:
  assumes "redisClient cs = Some r" "outage r = None"
    and "json_Marshal val = Inl err"
    and "map_of (data r) key = Some (old, ttl)"
  shows "Get json_Unmarshal (snd (Set json_Marshal cs key val expiration)) key
     = (case json_Unmarshal old of Some result \<Rightarrow> result | None \<Rightarrow> GString old)"
  using assms by (simp add: Set_def Get_def redis_Get_def memory_Set_def)

lemma Set_then_Get_stale_remote:
  "Get example_Unmarshal
     (snd (Set example_Marshal
        (snd (Set example_Marshal remote_cache ''k'' (GString ''old'') 60))
        ''k'' (GOther 0) 60)) ''k'' = GString ''old''"
  by (simp add: Set_def Get_def example_Marshal_def example_Unmarshal_def remote_cache_def
      redis_Set_def redis_Get_def memory_Set_def company_json_def)

lemma example_Unmarshal_generic: "example_Unmarshal s = Some v \<Longrightarrow> json_generic v"
  by (auto simp: example_Unmarshal_def split: if_splits list.splits)

text \<open>
  C6 on the remote tier. \<open>json.Unmarshal\<close> into an \<open>interface{}\<close> yields \<open>nil\<close>, a
  \<open>bool\<close>, a \<open>float64\<close>, a \<open>string\<close>, a \<open>[]interface{}\<close> or a
  \<open>map[string]interface{}\<close>. So when the remote tier takes the \<open>Set\<close> of a value of
  any other dynamic type (an \<open>int64\<close>, a \<open>*models.Company\<close>), the \<open>Get\<close> that
  follows returns a value of another dynamic type than the one stored: it is not the
  value stored, and the type assertion of the caller fails.
\<close>

theorem Get_after_remote_Set_is_generic:
  assumes "redisClient cs = Some r" "outage r = None"
    and "json_Marshal val = Inr jsonData"
    and "\<forall>s v. json_Unmarshal s = Some v \<longrightarrow> json_generic v"
    and "\<not> json_generic val"
  shows "json_generic (Get json_Unmarshal (snd (Set json_Marshal cs key val expiration)) key) \<and>
         Get json_Unmarshal (snd (Set json_Marshal cs key val expiration)) key \<noteq> val"
proof -
  have "Get json_Unmarshal (snd (Set json_Marshal cs key val expiration)) key
      = (case json_Unmarshal jsonData of Some result \<Rightarrow> result | None \<Rightarrow> GString jsonData)"
    using assms(1-3) by (simp add: Set_remote Get_def redis_Get_def)
  moreover have "json_generic (case json_Unmarshal jsonData of Some result \<Rightarrow> result | None \<Rightarrow> GString jsonData)"
    using assms(4) by (cases "json_Unmarshal jsonData") auto
  ultimately show ?thesis
    using assms(5) by auto
qed

theorem Get_after_remote_Set_is_generic_witness:
  "Get example_Unmarshal (snd (Set example_Marshal remote_cache ''company:T1'' (GOther 1) 1800))
     ''company:T1'' = GMap [(''company_id'', GString ''T1'')] \<and>
   json_generic (Get example_Unmarshal
     (snd (Set example_Marshal remote_cache ''company:T1'' (GOther 1) 1800)) ''company:T1'') \<and>
   Get example_Unmarshal (snd (Set example_Marshal remote_cache ''company:T1'' (GOther 1) 1800))
     ''company:T1'' \<noteq> GOther 1 \<and>
   Get example_Unmarshal (snd (Set example_Marshal local_cache ''company:T1'' (GOther 1) 1800))
     ''company:T1'' = GOther 1"
proof -
  have h: "redisClient remote_cache = Some \<lparr>outage = None, data = []\<rparr>"
    "outage \<lparr>outage = None, data = []\<rparr> = None"
    "example_Marshal (GOther 1) = Inr company_json"
    "\<forall>s v. example_Unmarshal s = Some v \<longrightarrow> json_generic v"
    "\<not> json_generic (GOther 1)"
    by (simp_all add: remote_cache_def example_Marshal_def example_Unmarshal_generic)
  have "Get example_Unmarshal (snd (Set example_Marshal remote_cache ''company:T1'' (GOther 1) 1800))
     ''company:T1'' = GMap [(''company_id'', GString ''T1'')]"
    by (simp add: Set_def Get_def example_Marshal_def example_Unmarshal_def remote_cache_def
        redis_Set_def redis_Get_def)
  moreover have "Get example_Unmarshal
      (snd (Set example_Marshal local_cache ''company:T1'' (GOther 1) 1800)) ''company:T1'' = GOther 1"
    by (simp add: Set_def Get_def Get_local_def memory_Get_def memory_Set_def local_cache_def)
  ultimately show ?thesis
    using Get_after_remote_Set_is_generic
      [where json_Marshal = example_Marshal and json_Unmarshal = example_Unmarshal
         and key = "''company:T1''" and expiration = 1800, OF h]
    by simp
qed

text \<open>
  C7, as the code has it. When the remote tier is unavailable (there is no client, which
  is what \<open>NewCacheService\<close> leaves when Redis does not answer its ping, or there is a
  client and its Redis is down), \<open>Set\<close> reports no error and the \<open>Get\<close> that follows
  returns the value from the local tier; \<open>DeletePattern\<close> changes nothing and fails:
  with the error \<open>Redis not available for pattern deletion\<close> when there is no client,
  and with the error of the remote when there is one.
\<close>

theorem remote_unavailable:
  assumes "redisClient cs = None \<or> (\<exists>r msg. redisClient cs = Some r \<and> outage r = Some msg)"
  shows "fst (Set json_Marshal cs key val expiration) = None \<and>
         Get json_Unmarshal (snd (Set json_Marshal cs key val expiration)) key = val \<and>
         snd (DeletePattern glob (snd (Set json_Marshal cs key val expiration)) pattern)
           = snd (Set json_Marshal cs key val expiration) \<and>
         (redisClient cs = None \<longrightarrow>
            fst (DeletePattern glob (snd (Set json_Marshal cs key val expiration)) pattern)
              = Some (Errorf ''Redis not available for pattern deletion'')) \<and>
         (\<forall>r msg. redisClient cs = Some r \<and> outage r = Some msg \<longrightarrow>
            fst (DeletePattern glob (snd (Set json_Marshal cs key val expiration)) pattern)
              = Some (External msg))"
proof -
  have set: "snd (Set json_Marshal cs key val expiration)
      = cs\<lparr>memoryCache := (memoryCache cs)(key \<mapsto> (val, expiration))\<rparr>"
    using assms by (intro Set_local) auto
  have get: "Get json_Unmarshal (snd (Set json_Marshal cs key val expiration)) key = val"
    using assms by (intro Get_after_local_Set) auto
  show ?thesis
    unfolding get
    using assms
    by (auto simp: Set_no_error set DeletePattern_def redis_Keys_def)
qed

theorem remote_unavailable_witness:
  "Get example_Unmarshal (snd (Set example_Marshal local_cache ''k'' (GString ''v'') 60)) ''k''
     = GString ''v'' \<and>
   fst (DeletePattern (\<lambda>pattern key. True)
          (snd (Set example_Marshal local_cache ''k'' (GString ''v'') 60)) ''company:*'')
     = Some (Errorf ''Redis not available for pattern deletion'') \<and>
   Get example_Unmarshal (snd (Set example_Marshal outage_cache ''k'' (GString ''v'') 60)) ''k''
     = GString ''v'' \<and>
   fst (DeletePattern (\<lambda>pattern key. True)
          (snd (Set example_Marshal outage_cache ''k'' (GString ''v'') 60)) ''company:*'')
     = Some (External ''dial tcp: connection refused'')"
  using remote_unavailable
      [of local_cache example_Marshal "''k''" "GString ''v''" 60 example_Unmarshal
          "\<lambda>pattern key. True" "''company:*''"]
    remote_unavailable
      [of outage_cache example_Marshal "''k''" "GString ''v''" 60 example_Unmarshal
          "\<lambda>pattern key. True" "''company:*''"]
  by (simp add: local_cache_def outage_cache_def)

text \<open>
  C7 as stated fails for a client whose Redis is down: \<open>DeletePattern\<close> returns the
  error of the remote, not \<open>Redis not available\<close>.
\<close>

theorem DeletePattern_during_outage:
  "fst (DeletePattern (\<lambda>pattern key. True)
          (snd (Set example_Marshal outage_cache ''k'' (GString ''v'') 60)) ''company:*'')
     = Some (External ''dial tcp: connection refused'') \<and>
   External ''dial tcp: connection refused'' \<noteq> Errorf ''Redis not available for pattern deletion''"
  by (simp add: DeletePattern_def Set_def outage_cache_def example_Marshal_def redis_Set_def
      redis_Keys_def memory_Set_def)

text \<open>
  C8. \<open>Set\<close> never returns an error. When the remote write cannot succeed (no client,
  the value does not serialize, or the remote is in an outage) the value is in the local
  store under the key with the expiration passed to \<open>Set\<close>, and nothing else changes;
  when the remote takes the write, the local store is left as it was and the remote
  holds the serialized value with that expiration.
\<close>

theorem Set_never_fails:
  "fst (Set json_Marshal cs key val expiration) = None \<and>
   ((redisClient cs = None \<or> (\<exists>err. json_Marshal val = Inl err) \<or>
     (\<exists>r msg. redisClient cs = Some r \<and> outage r = Some msg))
      \<longrightarrow> snd (Set json_Marshal cs key val expiration)
            = cs\<lparr>memoryCache := (memoryCache cs)(key \<mapsto> (val, expiration))\<rparr>) \<and>
   (\<forall>r jsonData. redisClient cs = Some r \<and> outage r = None \<and> json_Marshal val = Inr jsonData
      \<longrightarrow> memoryCache (snd (Set json_Marshal cs key val expiration)) = memoryCache cs \<and>
          (\<exists>r'. redisClient (snd (Set json_Marshal cs key val expiration)) = Some r' \<and>
                outage r' = None \<and> map_of (data r') key = Some (jsonData, expiration)))"
  using Set_no_error [of json_Marshal cs key val expiration]
    Set_local [of cs json_Marshal val key expiration]
  by (auto simp: Set_remote)

theorem Set_never_fails_witness:
  "Set example_Marshal remote_cache ''k'' (GOther 3) 60
     = (None, remote_cache\<lparr>memoryCache := [''k'' \<mapsto> (GOther 3, 60)]\<rparr>) \<and>
   Set example_Marshal (remote_cache\<lparr>redisClient := Some \<lparr>outage = Some ''connection refused'', data = []\<rparr>\<rparr>)
       ''k'' (GString ''v'') 60
     = (None, \<lparr>redisClient = Some \<lparr>outage = Some ''connection refused'', data = []\<rparr>,
               memoryCache = [''k'' \<mapsto> (GString ''v'', 60)]\<rparr>)"
  using Set_never_fails [of example_Marshal remote_cache "''k''" "GOther 3" 60]
    Set_never_fails [of example_Marshal
      "remote_cache\<lparr>redisClient := Some \<lparr>outage = Some ''connection refused'', data = []\<rparr>\<rparr>"
      "''k''" "GString ''v''" 60]
  by (simp add: remote_cache_def example_Marshal_def prod_eq_iff)

lemma Increment_no_remote:
  "redisClient cs = None \<or>
   (\<exists>r err. redisClient cs = Some r \<and> redis_IncrBy atoi itoa r key delta = Inl err)
   \<Longrightarrow> Increment atoi itoa cs key delta = Increment_local cs key delta"
  by (auto simp: Increment_def)

text \<open>
  C10. When the remote tier is not usable for the increment (no client, or its
  \<open>INCRBY\<close> fails), a key whose local value is not an \<open>int64\<close> is overwritten with
  \<open>delta\<close> and \<open>delta\<close> is returned, which is the result for the same cache without
  the key; a local \<open>int64\<close> is the only value \<open>delta\<close> is added to.
\<close>

theorem Increment_overwrites_non_int64:
  assumes remote: "redisClient cs = None \<or>
      (\<exists>r err. redisClient cs = Some r \<and> redis_IncrBy atoi itoa r key delta = Inl err)"
  shows "(memoryCache cs key = Some (v, e) \<and> (\<forall>n. v \<noteq> GInt64 n) \<longrightarrow>
            Increment atoi itoa cs key delta
              = ((delta, None),
                 cs\<lparr>memoryCache := (memoryCache cs)(key \<mapsto> (GInt64 delta, DefaultExpiration))\<rparr>) \<and>
            Increment atoi itoa cs key delta
              = Increment atoi itoa (cs\<lparr>memoryCache := (memoryCache cs)(key := None)\<rparr>) key delta) \<and>
         (memoryCache cs key = Some (GInt64 n, e) \<longrightarrow>
            Increment atoi itoa cs key delta
              = ((n + delta, None),
                 cs\<lparr>memoryCache := (memoryCache cs)(key \<mapsto> (GInt64 (n + delta), DefaultExpiration))\<rparr>))"
proof -
  have loc: "Increment atoi itoa cs key delta = Increment_local cs key delta"
    using remote by (rule Increment_no_remote)
  have loc': "Increment atoi itoa (cs\<lparr>memoryCache := (memoryCache cs)(key := None)\<rparr>) key delta
      = Increment_local (cs\<lparr>memoryCache := (memoryCache cs)(key := None)\<rparr>) key delta"
    using remote by (intro Increment_no_remote) auto
  show ?thesis
    unfolding loc loc'
    by (auto simp: Increment_local_def memory_Get_def memory_Set_def Let_def split: gvalue.splits)
qed

theorem Increment_overwrites_non_int64_witness:
  "Increment (\<lambda>s. None) (\<lambda>n. [])
       (snd (Set example_Marshal local_cache ''hits'' (GInt 5) 60)) ''hits'' 1
     = ((1, None), \<lparr>redisClient = None, memoryCache = [''hits'' \<mapsto> (GInt64 1, DefaultExpiration)]\<rparr>) \<and>
   fst (Increment (\<lambda>s. None) (\<lambda>n. [])
       (snd (Set example_Marshal local_cache ''hits'' (GInt64 5) 60)) ''hits'' 1)
     = (6, None)"
  using Increment_overwrites_non_int64
      [of "snd (Set example_Marshal local_cache ''hits'' (GInt 5) 60)"
          "\<lambda>s. None" "\<lambda>n. []" "''hits''" 1 "GInt 5" 60 0]
    Increment_overwrites_non_int64
      [of "snd (Set example_Marshal local_cache ''hits'' (GInt64 5) 60)"
          "\<lambda>s. None" "\<lambda>n. []" "''hits''" 1 "GInt64 5" 60 5]
  by (simp add: Set_def local_cache_def memory_Set_def)

section \<open>Properties of the scheduler statistics\<close>

text \<open>
  What \<open>GetStats\<close> reports for a scheduler with at least one job: the running flag,
  the number of jobs, the earliest next run over all jobs, and the latest previous run
  over all jobs provided the first entry has run.
\<close>

lemma fold_earliest:
  "fold (\<lambda>entry nextTime. if Before (Next entry) nextTime then Next entry else nextTime) rest n
     = Min (set (n # map Next rest))"
proof -
  have eq: "(\<lambda>entry nextTime. if Before (Next entry) nextTime then Next entry else nextTime)
      = min \<circ> Next"
    by (auto simp: fun_eq_iff Before_def min_def)
  show ?thesis
    by (simp only: eq Min.set_eq_fold fold_map)
qed

lemma fold_latest:
  "fold (\<lambda>entry lastTime. if After (Prev entry) lastTime then Prev entry else lastTime) rest n
     = Max (set (n # map Prev rest))"
proof -
  have eq: "(\<lambda>entry lastTime. if After (Prev entry) lastTime then Prev entry else lastTime)
      = max \<circ> Prev"
    by (auto simp: fun_eq_iff After_def max_def)
  show ?thesis
    by (simp only: eq Max.set_eq_fold fold_map)
qed

lemma GetStats_reports:
  assumes "cron_entries ss = first # rest"
  shows "IsRunning (GetStats ss) = isRunning ss"
    and "JobCount (GetStats ss) = length (cron_entries ss)"
    and "NextJobTime (GetStats ss) = Some (Min (Next ` set (cron_entries ss)))"
    and "LastJobTime (GetStats ss)
           = (if Prev first = 0 then None else Some (Max (Prev ` set (cron_entries ss))))"
  using assms
  by (simp_all add: GetStats_def Let_def fold_earliest fold_latest IsZero_def)

text \<open>
  C9 at a list of jobs whose first entry has not run while a later one has: \<open>GetStats\<close>
  reports the running flag, the job count and the earliest next run, and no last run,
  although the latest previous run over all jobs is 1005.
\<close>

theorem GetStats_first_entry_never_ran:
  "GetStats example_scheduler
     = \<lparr>IsRunning = True, JobCount = 2, NextJobTime = Some 1007, LastJobTime = None\<rparr> \<and>
   Max (Prev ` set (cron_entries example_scheduler)) = 1005"
  by (simp add: GetStats_def example_scheduler_def Before_def After_def IsZero_def)

section \<open>Properties of the token lifecycle manager\<close>

lemma Sub_less_iff: "d < maxDuration \<Longrightarrow> minDuration < d \<Longrightarrow> (Sub t u < d) = (t - u < d)"
  by (auto simp: Sub_def Let_def)

lemma less_Sub_iff: "d < maxDuration \<Longrightarrow> minDuration < d \<Longrightarrow> (d < Sub t u) = (d < t - u)"
  by (auto simp: Sub_def Let_def)

lemma Hour_bounds:
  "Hour < maxDuration" "minDuration < Hour" "24 * Hour < maxDuration" "minDuration < 24 * Hour"
  "0 < Hour"
  by (simp_all add: Hour_def maxDuration_def minDuration_def)

text \<open>
  C2, as the code has it. For an active tenant in the store, and a clock whose second
  reading is not before the first, \<open>ValidateToken\<close> returns no error; it returns
  false when the credential expiry is past the first reading, and when the expiry lies
  less than one hour after the second reading; it returns true exactly when at least
  one hour remains before expiry at the second reading.
\<close>

theorem ValidateToken_margin:
  assumes "First_Company (\<lambda>c. CompanyID c = companyID \<and> IsActive c = True) w = Inr company"
    and "now1 \<le> now2"
  shows "snd (ValidateToken now1 now2 w companyID) = None \<and>
         (TokenExpiry company < now1 \<longrightarrow> fst (ValidateToken now1 now2 w companyID) = False) \<and>
         (TokenExpiry company < now2 + Hour \<longrightarrow> fst (ValidateToken now1 now2 w companyID) = False) \<and>
         (fst (ValidateToken now1 now2 w companyID) = True \<longleftrightarrow> Hour \<le> TokenExpiry company - now2)"
  using assms Hour_bounds(5)
  by (auto simp: ValidateToken_def After_def Until_def Sub_less_iff Hour_bounds(1-4))

theorem ValidateToken_margin_witness:
  "fst (ValidateToken (100 * Hour) (100 * Hour + 50) example_world ''T1'') = True \<and>
   fst (ValidateToken (100 * Hour) (100 * Hour + 50) example_world ''T2'') = False"
  using ValidateToken_margin [of "''T1''" example_world tenant_T1 "100 * Hour" "100 * Hour + 50"]
    ValidateToken_margin [of "''T2''" example_world tenant_T2 "100 * Hour" "100 * Hour + 50"]
  by (simp add: First_Company_def First_def example_world_def tenant_T1_def
      tenant_T2_def tenant_T3_def Hour_def)

text \<open>
  C2 as stated fails where exactly one hour remains: with both readings of the clock at
  hour 101 the credential of \<open>T1\<close> expires in one hour, not more, and \<open>ValidateToken\<close>
  returns true.
\<close>

theorem ValidateToken_exactly_one_hour:
  "fst (ValidateToken (101 * Hour) (101 * Hour) example_world ''T1'') = True \<and>
   TokenExpiry tenant_T1 - 101 * Hour = Hour \<and>
   \<not> (Hour < TokenExpiry tenant_T1 - 101 * Hour)"
  by (simp add: ValidateToken_def First_Company_def First_def example_world_def tenant_T1_def
      tenant_T2_def tenant_T3_def After_def Until_def Sub_def Hour_def minDuration_def
      maxDuration_def)

text \<open>
  C3. For a tenant in the store whose credential expiry is more than 24 hours after
  \<open>now\<close>, \<open>RefreshTokenForCompany\<close> returns the error that the token does not need
  refreshing yet (the spec's \<open>NotDue\<close>) and leaves the state as it was: no call reaches
  the broker.
\<close>

theorem RefreshTokenForCompany_not_due:
  assumes "First_Company (\<lambda>c. CompanyID c = companyID) w = Inr company"
    and "24 * Hour < TokenExpiry company - now"
  shows "RefreshTokenForCompany refreshTokenAPI now w companyID
           = (Some (Errorf (''token for company '' @ companyID @ '' does not need refreshing yet'')), w) \<and>
         broker_calls (snd (RefreshTokenForCompany refreshTokenAPI now w companyID)) = broker_calls w"
  using assms
  by (simp add: RefreshTokenForCompany_def Until_def less_Sub_iff Hour_bounds(1-4))

theorem RefreshTokenForCompany_not_due_witness:
  "RefreshTokenForCompany example_broker (100 * Hour) example_world ''T3''
     = (Some (Errorf ''token for company T3 does not need refreshing yet''), example_world) \<and>
   broker_calls (snd (RefreshTokenForCompany example_broker (100 * Hour) example_world ''T3'')) = []"
  using RefreshTokenForCompany_not_due [of "''T3''" example_world tenant_T3 "100 * Hour" example_broker]
  by (simp add: First_Company_def First_def example_world_def tenant_T1_def
      tenant_T2_def tenant_T3_def Hour_def)

text \<open>
  C5, as the code has it. With its retention window of 30 days \<open>CleanupExpiredTokens\<close>
  returns no error and nothing else: the number of deleted rows goes to the log. It
  deletes the refresh records whose status is \<open>failed\<close> or \<open>expired\<close> and whose last
  update is more than 30 days before \<open>now\<close>, keeps every other record in its place,
  keeps every \<open>active\<close> record whatever its age, and leaves the companies alone.
\<close>

theorem CleanupExpiredTokens_removes:
  "fst (CleanupExpiredTokens now w) = None \<and>
   companies (snd (CleanupExpiredTokens now w)) = companies w \<and>
   token_refreshes (snd (CleanupExpiredTokens now w))
     = filter (\<lambda>t. \<not> ((Status t = ''failed'' \<or> Status t = ''expired'') \<and>
                       TokenRefresh_UpdatedAt t < now - 30 * (24 * Hour)))
         (token_refreshes w) \<and>
   (\<forall>t \<in> set (token_refreshes w). Status t = ''active''
      \<longrightarrow> t \<in> set (token_refreshes (snd (CleanupExpiredTokens now w))))"
proof -
  let ?w' = "snd (CleanupExpiredTokens now w)"
  have rows: "token_refreshes ?w'
      = filter (\<lambda>t. \<not> ((Status t = ''failed'' \<or> Status t = ''expired'') \<and>
                       TokenRefresh_UpdatedAt t < now - 30 * (24 * Hour)))
         (token_refreshes w)"
    unfolding CleanupExpiredTokens_def Let_def
    by (simp, rule filter_cong) (auto simp: AddDate_days_def)
  have "fst (CleanupExpiredTokens now w) = None" "companies ?w' = companies w"
    by (simp_all add: CleanupExpiredTokens_def Let_def)
  moreover have "\<forall>t \<in> set (token_refreshes w). Status t = ''active''
      \<longrightarrow> t \<in> set (token_refreshes ?w')"
    unfolding rows by simp
  ultimately show ?thesis using rows by simp
qed

theorem CleanupExpiredTokens_removes_witness:
  "token_refreshes (snd (CleanupExpiredTokens (100 * 24 * Hour)
      \<lparr>companies = [], token_refreshes = [record_old_failed, record_old_active], broker_calls = []\<rparr>))
     = [record_old_active]"
  using CleanupExpiredTokens_removes [of "100 * 24 * Hour"
      "\<lparr>companies = [], token_refreshes = [record_old_failed, record_old_active], broker_calls = []\<rparr>"]
  by (simp add: record_old_failed_def record_old_active_def Hour_def)

text \<open>
  C5 as stated fails: the result of \<open>CleanupExpiredTokens\<close> is the same on a store
  where it removes one record and on a store where it removes none, so it returns no
  count.
\<close>

theorem CleanupExpiredTokens_returns_no_count:
  "fst (CleanupExpiredTokens (100 * 24 * Hour)
          \<lparr>companies = [], token_refreshes = [record_old_failed], broker_calls = []\<rparr>)
     = fst (CleanupExpiredTokens (100 * 24 * Hour)
          \<lparr>companies = [], token_refreshes = [], broker_calls = []\<rparr>) \<and>
   token_refreshes (snd (CleanupExpiredTokens (100 * 24 * Hour)
       \<lparr>companies = [], token_refreshes = [record_old_failed], broker_calls = []\<rparr>)) = [] \<and>
   token_refreshes (snd (CleanupExpiredTokens (100 * 24 * Hour)
       \<lparr>companies = [], token_refreshes = [], broker_calls = []\<rparr>)) = []"
  by (simp add: CleanupExpiredTokens_def AddDate_days_def record_old_failed_def Hour_def)

subsection \<open>Lookups and saves\<close>

lemma length_hex: "length (hex k n) = k"
  by (induction k arbitrary: n) simp_all

lemma length_uuid_String: "length (uuid_String u) = 36"
  by (simp add: uuid_String_def Let_def length_hex)

lemma not_uuid_String: "length s \<noteq> 36 \<Longrightarrow> (s = uuid_String u) = False"
  using length_uuid_String [of u] by auto




lemma First_none:
  "\<forall>y \<in> set rows. \<not> cond y \<Longrightarrow> First pk cond rows = Inl ErrRecordNotFound"
  by (simp add: First_def filter_empty_conv[THEN iffD2])


lemma set_Save: "set (Save pk x rows) = insert x {row \<in> set rows. pk row \<noteq> pk x}"
proof (cases "pk x \<in> pk ` set rows")
  case True
  then show ?thesis by (auto simp: Save_def)
next
  case False
  then have "\<forall>row \<in> set rows. pk row \<noteq> pk x" by (metis imageI)
  then have "{row \<in> set rows. pk row \<noteq> pk x} = set rows" by blast
  with False show ?thesis by (simp add: Save_def)
qed





subsection \<open>The scheduled refresh\<close>

text \<open>
  A record whose preload found no company is marked \<open>failed\<close> without a call to the
  broker, provided no live company has the empty company id.
\<close>

lemma Preload_zero:
  assumes "\<forall>c \<in> set (companies w). DeletedAt c = None \<longrightarrow> CompanyID c \<noteq> uuid_String (TokenRefresh_ID t)"
  shows "Preload_Company w t = zero_Company"
proof -
  have "First_Company (\<lambda>c. CompanyID c = uuid_String (TokenRefresh_ID t)) w = Inl ErrRecordNotFound"
    unfolding First_Company_def using assms by (intro First_none) auto
  then show ?thesis by (simp add: Preload_Company_def)
qed

lemma refresh_one_zero:
  assumes "\<forall>c \<in> set (companies w). DeletedAt c = None \<longrightarrow> CompanyID c \<noteq> []"
  shows "refresh_one api now (t, zero_Company) w
     = Save_TokenRefresh now
         (t\<lparr>Status := ''failed'',
            ErrorMessage := ''nango refresh failed: company not found: record not found''\<rparr>) w"
proof -
  have "First_Company (\<lambda>c. CompanyID c = []) w = Inl ErrRecordNotFound"
    unfolding First_Company_def using assms by (intro First_none) auto
  then have "RefreshToken api now w [] = (Some (Wrap ''company not found'' ErrRecordNotFound), w)"
    by (simp add: RefreshToken_def)
  then show ?thesis
    by (simp add: refresh_one_def refreshSingleToken_def Save_preloaded_def Save_TokenRefresh_def
        zero_Company_def Let_def)
qed

lemma fold_refresh_one_zero:
  assumes "\<forall>c \<in> set (companies v). DeletedAt c = None \<longrightarrow> CompanyID c \<noteq> []"
  shows "fold (refresh_one api now) (map (\<lambda>t. (t, zero_Company)) ts) v
     = v\<lparr>token_refreshes :=
           fold (\<lambda>t. Save TokenRefresh_ID
                  (t\<lparr>Status := ''failed'',
                     ErrorMessage := ''nango refresh failed: company not found: record not found'',
                     TokenRefresh_UpdatedAt := now\<rparr>))
             ts (token_refreshes v)\<rparr>"
  using assms
proof (induction ts arbitrary: v)
  case Nil
  then show ?case by simp
next
  case (Cons t ts)
  let ?v' = "Save_TokenRefresh now
         (t\<lparr>Status := ''failed'',
            ErrorMessage := ''nango refresh failed: company not found: record not found''\<rparr>) v"
  have step: "refresh_one api now (t, zero_Company) v = ?v'"
    by (rule refresh_one_zero [OF Cons.prems])
  have "\<forall>c \<in> set (companies ?v'). DeletedAt c = None \<longrightarrow> CompanyID c \<noteq> []"
    using Cons.prems by (simp add: Save_TokenRefresh_def)
  from Cons.IH [OF this] show ?case
    by (simp add: step Save_TokenRefresh_def)
qed

lemma fold_Save_keeps:
  assumes "y \<in> set rows" "\<forall>t \<in> set ts. pk (g t) \<noteq> pk y"
  shows "y \<in> set (fold (\<lambda>t. Save pk (g t)) ts rows)"
  using assms by (induction ts arbitrary: rows) (simp_all add: set_Save)

lemma fold_Save_puts:
  assumes "x \<in> set ts" "distinct (map pk ts)" "\<forall>t. pk (g t) = pk t"
  shows "g x \<in> set (fold (\<lambda>t. Save pk (g t)) ts rows)"
  using assms
proof (induction ts arbitrary: rows)
  case Nil
  then show ?case by simp
next
  case (Cons t ts)
  show ?case
  proof (cases "x = t")
    case True
    have "g t \<in> set (Save pk (g t) rows)" by (simp add: set_Save)
    moreover have "\<forall>u \<in> set ts. pk (g u) \<noteq> pk (g t)"
      using Cons.prems(2,3) by (auto simp: image_iff)
    ultimately show ?thesis
      using fold_Save_keeps [of "g t" "Save pk (g t) rows" ts pk g] True by simp
  next
    case False
    then show ?thesis
      using Cons.IH [of "Save pk (g t) rows"] Cons.prems by simp
  qed
qed

text \<open>
  On every store where no live company has an empty company id or the text of the id of
  a refresh record as its company id, \<open>RefreshExpiredTokens\<close> returns no error, calls
  the broker for no tenant, leaves the companies as they were and marks every due record
  \<open>failed\<close>.
\<close>

lemma RefreshExpiredTokens_refreshes_nothing:
  assumes ids: "\<forall>c \<in> set (companies w). DeletedAt c = None \<longrightarrow>
            CompanyID c \<noteq> [] \<and>
            (\<forall>t \<in> set (token_refreshes w). CompanyID c \<noteq> uuid_String (TokenRefresh_ID t))"
    and keys: "distinct (map TokenRefresh_ID (token_refreshes w))"
    and t: "t \<in> set (token_refreshes w)" "due now t"
  shows "fst (RefreshExpiredTokens api now w) = None"
    and "broker_calls (snd (RefreshExpiredTokens api now w)) = broker_calls w"
    and "companies (snd (RefreshExpiredTokens api now w)) = companies w"
    and "t\<lparr>Status := ''failed'',
           ErrorMessage := ''nango refresh failed: company not found: record not found'',
           TokenRefresh_UpdatedAt := now\<rparr>
         \<in> set (token_refreshes (snd (RefreshExpiredTokens api now w)))"
proof -
  let ?due = "filter (due now) (token_refreshes w)"
  let ?g = "\<lambda>t. t\<lparr>Status := ''failed'',
           ErrorMessage := ''nango refresh failed: company not found: record not found'',
           TokenRefresh_UpdatedAt := now\<rparr>"
  have batch: "map (\<lambda>t. (t, Preload_Company w t)) ?due = map (\<lambda>t. (t, zero_Company)) ?due"
    using ids by (intro map_cong refl) (simp add: Preload_zero)
  have named: "\<forall>c \<in> set (companies w). DeletedAt c = None \<longrightarrow> CompanyID c \<noteq> []"
    using ids by simp
  have run: "snd (RefreshExpiredTokens api now w)
      = w\<lparr>token_refreshes := fold (\<lambda>t. Save TokenRefresh_ID (?g t)) ?due (token_refreshes w)\<rparr>"
    unfolding RefreshExpiredTokens_def Let_def batch snd_conv
    by (rule fold_refresh_one_zero [OF named])
  show "fst (RefreshExpiredTokens api now w) = None"
    by (simp add: RefreshExpiredTokens_def Let_def)
  show "broker_calls (snd (RefreshExpiredTokens api now w)) = broker_calls w"
    "companies (snd (RefreshExpiredTokens api now w)) = companies w"
    by (simp_all add: run)
  have "?g t \<in> set (fold (\<lambda>t. Save TokenRefresh_ID (?g t)) ?due (token_refreshes w))"
    using t keys by (intro fold_Save_puts) (simp_all add: distinct_map_filter)
  then show "?g t \<in> set (token_refreshes (snd (RefreshExpiredTokens api now w)))"
    by (simp add: run)
qed

text \<open>
  C1 at a batch of two due records, of tenant \<open>T1\<close> whom the broker would refresh and of
  tenant \<open>T2\<close> whom it refuses: \<open>RefreshExpiredTokens\<close> returns no error and makes no
  call to the broker; both records end with status \<open>failed\<close>, the error message
  \<open>nango refresh failed: company not found: record not found\<close> and the refresh count
  they had.
\<close>

theorem RefreshExpiredTokens_marks_every_record_failed:
  "RefreshExpiredTokens example_broker (100 * Hour) example_world
     = (None,
        example_world\<lparr>token_refreshes :=
          [record_T1\<lparr>Status := ''failed'',
                     ErrorMessage := ''nango refresh failed: company not found: record not found'',
                     TokenRefresh_UpdatedAt := 100 * Hour\<rparr>,
           record_T2\<lparr>Status := ''failed'',
                     ErrorMessage := ''nango refresh failed: company not found: record not found'',
                     TokenRefresh_UpdatedAt := 100 * Hour\<rparr>]\<rparr>) \<and>
   broker_calls (snd (RefreshExpiredTokens example_broker (100 * Hour) example_world)) = [] \<and>
   example_broker (Company_RefreshToken tenant_T1) (CompanyID tenant_T1)
     = Inr \<lparr>Response_AccessToken = ''new-access'', Response_RefreshToken = ''new-refresh'',
            ExpiresAt = 101 * Hour\<rparr>"
proof -
  have ids: "\<forall>c \<in> set (companies w). DeletedAt c = None \<longrightarrow> CompanyID c \<noteq> []"
    if "companies w = companies example_world" for w
    using that by (simp add: example_world_def tenant_T1_def tenant_T2_def tenant_T3_def)
  have pre: "Preload_Company example_world t = zero_Company" for t
    by (rule Preload_zero)
      (simp add: example_world_def tenant_T1_def tenant_T2_def tenant_T3_def not_uuid_String)
  have due: "filter (due (100 * Hour)) (token_refreshes example_world) = [record_T1, record_T2]"
    by (simp add: example_world_def due_def record_T1_def record_T2_def Hour_def)
  have run: "snd (RefreshExpiredTokens example_broker (100 * Hour) example_world)
      = refresh_one example_broker (100 * Hour) (record_T2, zero_Company)
          (refresh_one example_broker (100 * Hour) (record_T1, zero_Company) example_world)"
    by (simp add: RefreshExpiredTokens_def Let_def due pre)
  have step1: "refresh_one example_broker (100 * Hour) (record_T1, zero_Company) example_world
      = Save_TokenRefresh (100 * Hour)
         (record_T1\<lparr>Status := ''failed'',
            ErrorMessage := ''nango refresh failed: company not found: record not found''\<rparr>)
         example_world"
    by (rule refresh_one_zero) (rule ids, simp)
  show ?thesis
    unfolding prod_eq_iff run step1
    by (simp add: refresh_one_zero ids Save_TokenRefresh_def Save_def RefreshExpiredTokens_def Let_def
        example_world_def record_T1_def record_T2_def example_broker_def tenant_T1_def
        tenant_T2_def tenant_T3_def)
qed

end
